theory Spec2Isabelle
  imports Main "HOL-Library.Char_ord" "HOL-Library.List_Lexorder"
begin

section \<open>Python values, errors and the library calls the selector makes\<close>

text \<open>
  The exceptions that can leave \<^verbatim>\<open>model_selection\<close>: \<open>FileNotFoundError\<close> from
  \<^verbatim>\<open>pd.read_csv\<close>, \<open>IndexError\<close> from indexing a list, \<open>AttributeError\<close> from
  reading an attribute that was never assigned, \<open>TraitError\<close> from a trait's validation.
  \<open>CatalogLoadError\<close> and \<open>NoMatchingModelError\<close> are the two error kinds of the
  specification; no statement of the source constructs either of them.
\<close>

datatype error =
  FileNotFoundError | IndexError | AttributeError | TraitError
  | CatalogLoadError | NoMatchingModelError

text \<open>A dynamically typed Python value: a \<^verbatim>\<open>str\<close> or a \<^verbatim>\<open>list\<close>.\<close>

datatype pyobj = Str string | Lst "pyobj list"

text \<open>\<^verbatim>\<open>s.find(c)\<close>: the index of the first occurrence of a character.\<close>

fun str_find :: "char \<Rightarrow> string \<Rightarrow> nat option" where
  "str_find c [] = None"
| "str_find c (x # xs) = (if x = c then Some 0 else map_option Suc (str_find c xs))"

text \<open>\<^verbatim>\<open>s.split(sep, 1)\<close>: at most one split, at the first separator.\<close>

definition split1 :: "char \<Rightarrow> string \<Rightarrow> string list" where
  "split1 sep s =
     (case str_find sep s of
        None \<Rightarrow> [s]
      | Some i \<Rightarrow> [take i s, drop (Suc i) s])"

text \<open>\<^verbatim>\<open>xs[i]\<close> for a non-negative index: out of range raises.\<close>

definition getitem :: "'a list \<Rightarrow> nat \<Rightarrow> error + 'a" where
  "getitem xs i = (if i < length xs then Inr (xs ! i) else Inl IndexError)"

text \<open>\<^verbatim>\<open>str.startswith\<close> and \<^verbatim>\<open>str.endswith\<close> for the one-character separator.\<close>

fun startswith :: "string \<Rightarrow> char \<Rightarrow> bool" where
  "startswith [] c = False"
| "startswith (x # xs) c = (x = c)"

definition endswith :: "string \<Rightarrow> char \<Rightarrow> bool" where
  "endswith s c = startswith (rev s) c"

text \<open>
  \<^verbatim>\<open>os.path.join(a, b)\<close> of \<^verbatim>\<open>posixpath\<close> with two arguments: an absolute \<open>b\<close>
  replaces \<open>a\<close>; otherwise a separator is inserted unless \<open>a\<close> is empty or already
  ends with one.
\<close>

definition os_path_join :: "string \<Rightarrow> string \<Rightarrow> string" where
  "os_path_join a b =
     (if startswith b (CHR ''/'') then b
      else if a = [] \<or> endswith a (CHR ''/'') then a @ b
      else a @ CHR ''/'' # b)"

text \<open>
  \<^verbatim>\<open>series.astype("category").cat.categories\<close> turned into a list: the distinct
  values of the column in ascending order. Strings compare as Python's do,
  lexicographically by character code.
\<close>

definition cat_categories :: "string list \<Rightarrow> string list" where
  "cat_categories xs = sort (remdups xs)"

section \<open>The catalog\<close>

text \<open>
  One row of the table, with the three columns of \<^verbatim>\<open>HEAD_LIST\<close>; the data frame
  \<^verbatim>\<open>self.df\<close> is the list of its rows in file order.
\<close>

record catalog_row =
  col_model_function :: string
  col_model_type :: string
  col_model_path :: string

text \<open>
  The files that \<^verbatim>\<open>pd.read_csv\<close> can see, as an association list from a file path to
  the parsed table; a path that is not listed does not exist.
\<close>

type_synonym files = "(string \<times> catalog_row list) list"

definition read_csv :: "files \<Rightarrow> string \<Rightarrow> error + catalog_row list" where
  "read_csv fs path =
     (case map_of fs path of
        None \<Rightarrow> Inl FileNotFoundError
      | Some tbl \<Rightarrow> Inr tbl)"

definition MODEL_REPO_DIR_DOCKER :: string where
  "MODEL_REPO_DIR_DOCKER = os_path_join ''/workspace'' ''model_repo''"

section \<open>The selector\<close>

record model_selection =
  core_library :: string
  df :: "catalog_row list"
  model_function :: string
  model_function_list :: "string list"
  model_type :: string
  model_type_list :: "string list"
  model_path :: string
  model_path_list :: "string list"
  selected_model_path :: string
  is_selected :: bool

text \<open>
  The \<^verbatim>\<open>if\<close>/\<^verbatim>\<open>elif\<close> at the head of \<^verbatim>\<open>__init__\<close>: the table read for the tag.
  \<open>Inr None\<close> is the case of neither branch, where \<^verbatim>\<open>self.df\<close> is not assigned.
\<close>

definition load_df :: "string \<Rightarrow> string \<Rightarrow> files \<Rightarrow> error + catalog_row list option" where
  "load_df lib dir_model_repo fs =
     (if lib = ''TensorRT'' then
        (case read_csv fs (os_path_join dir_model_repo ''trt_model_tbl.csv'') of
           Inl e \<Rightarrow> Inl e
         | Inr tbl \<Rightarrow> Inr (Some tbl))
      else if lib = ''Pytorch'' then
        (case read_csv fs (os_path_join dir_model_repo ''torch_model_tbl.csv'') of
           Inl e \<Rightarrow> Inl e
         | Inr tbl \<Rightarrow> Inr (Some tbl))
      else Inr None)"

text \<open>
  The body of the loop \<^verbatim>\<open>for p in self.df.values\<close>:
  \<^verbatim>\<open>p[2] = os.path.join(dir_model_repo, p[2].split("/", 1)[1])\<close>.
\<close>

definition rewrite_row :: "string \<Rightarrow> catalog_row \<Rightarrow> error + catalog_row" where
  "rewrite_row dir_model_repo p =
     (case getitem (split1 (CHR ''/'') (col_model_path p)) 1 of
        Inl e \<Rightarrow> Inl e
      | Inr rest \<Rightarrow> Inr (p\<lparr>col_model_path := os_path_join dir_model_repo rest\<rparr>))"

text \<open>
  The loop itself, in row order; it stops at the first row that raises. The rows of
  \<^verbatim>\<open>df.values\<close> are taken to be views of the frame (one block of object columns), so
  that the assignment to \<^verbatim>\<open>p[2]\<close> changes the frame, as the code expects.
\<close>

fun rewrite_paths :: "string \<Rightarrow> catalog_row list \<Rightarrow> error + catalog_row list" where
  "rewrite_paths dir_model_repo [] = Inr []"
| "rewrite_paths dir_model_repo (p # ps) =
     (case rewrite_row dir_model_repo p of
        Inl e \<Rightarrow> Inl e
      | Inr p' \<Rightarrow>
          (case rewrite_paths dir_model_repo ps of
             Inl e \<Rightarrow> Inl e
           | Inr ps' \<Rightarrow> Inr (p' # ps')))"

definition update_model_type_list :: "model_selection \<Rightarrow> model_selection" where
  "update_model_type_list s =
     (let mf = filter (\<lambda>r. col_model_function r = model_function s) (df s)
      in s\<lparr>model_type_list := cat_categories (map col_model_type mf)\<rparr>)"

text \<open>
  \<^verbatim>\<open>mt.loc[:, ['model_path']].values\<close> is a two-dimensional array with one column,
  here the list of its rows; \<^verbatim>\<open>mpl[:, 0]\<close> takes entry 0 of every row.
\<close>

definition update_model_list :: "model_selection \<Rightarrow> model_selection" where
  "update_model_list s =
     (let mf = filter (\<lambda>r. col_model_function r = model_function s) (df s);
          mt = filter (\<lambda>r. col_model_type r = model_type s) mf;
          mpl = map (\<lambda>r. [col_model_path r]) mt
      in s\<lparr>model_path_list := map (\<lambda>row. row ! 0) mpl\<rparr>)"

text \<open>
  \<^verbatim>\<open>__init__\<close>. The trait defaults are the initial field values; the observer is
  registered last, so none of the assignments made here is notified.
\<close>

definition init :: "string \<Rightarrow> string \<Rightarrow> files \<Rightarrow> error + model_selection" where
  "init lib dir_model_repo fs =
     (case load_df lib dir_model_repo fs of
        Inl e \<Rightarrow> Inl e
      | Inr None \<Rightarrow> Inl AttributeError
      | Inr (Some tbl) \<Rightarrow>
          (case rewrite_paths dir_model_repo tbl of
             Inl e \<Rightarrow> Inl e
           | Inr rows \<Rightarrow>
               Inr (update_model_list (update_model_type_list
                 \<lparr>core_library = lib, df = rows,
                  model_function = ''object detection'',
                  model_function_list = cat_categories (map col_model_function rows),
                  model_type = ''SSD'', model_type_list = [],
                  model_path = [], model_path_list = [],
                  selected_model_path = [], is_selected = False\<rparr>))))"

text \<open>The change notification that traitlets hands to an observer.\<close>

record change =
  name :: string
  old :: string
  new :: string

text \<open>
  The observer. Its three tests are separate \<^verbatim>\<open>if\<close>s. Each assignment in it stores the
  value the trait already holds when traitlets calls it, so it is a plain store.
\<close>

definition update_model :: "change \<Rightarrow> model_selection \<Rightarrow> model_selection" where
  "update_model c s =
     (let s1 = (if name c = ''model_function''
                then update_model_type_list (s\<lparr>model_function := new c\<rparr>) else s);
          s2 = (if name c = ''model_type''
                then update_model_list (s1\<lparr>model_type := new c\<rparr>) else s1)
      in (if name c = ''model_path'' then s2\<lparr>model_path := new c\<rparr> else s2))"

text \<open>
  Validation of a \<^verbatim>\<open>Unicode\<close> trait: a \<^verbatim>\<open>str\<close> is accepted, a list is not.
\<close>

fun Unicode_validate :: "pyobj \<Rightarrow> error + string" where
  "Unicode_validate (Str v) = Inr v"
| "Unicode_validate (Lst vs) = Inl TraitError"

text \<open>
  The three assignments \<^verbatim>\<open>ms.model_function = x\<close>, \<^verbatim>\<open>ms.model_type = x\<close> and
  \<^verbatim>\<open>ms.model_path = x\<close> on a constructed selector. traitlets validates the value,
  stores it, and calls the observer only when the stored value differs from the old one.
\<close>

definition set_model_function :: "pyobj \<Rightarrow> model_selection \<Rightarrow> error + model_selection" where
  "set_model_function x s =
     (case Unicode_validate x of
        Inl e \<Rightarrow> Inl e
      | Inr v \<Rightarrow>
          (let old_value = model_function s; s' = s\<lparr>model_function := v\<rparr>
           in if old_value = v then Inr s'
              else Inr (update_model
                     \<lparr>name = ''model_function'', old = old_value, new = v\<rparr> s')))"

definition set_model_type :: "pyobj \<Rightarrow> model_selection \<Rightarrow> error + model_selection" where
  "set_model_type x s =
     (case Unicode_validate x of
        Inl e \<Rightarrow> Inl e
      | Inr v \<Rightarrow>
          (let old_value = model_type s; s' = s\<lparr>model_type := v\<rparr>
           in if old_value = v then Inr s'
              else Inr (update_model
                     \<lparr>name = ''model_type'', old = old_value, new = v\<rparr> s')))"

definition set_model_path :: "pyobj \<Rightarrow> model_selection \<Rightarrow> error + model_selection" where
  "set_model_path x s =
     (case Unicode_validate x of
        Inl e \<Rightarrow> Inl e
      | Inr v \<Rightarrow>
          (let old_value = model_path s; s' = s\<lparr>model_path := v\<rparr>
           in if old_value = v then Inr s'
              else Inr (update_model
                     \<lparr>name = ''model_path'', old = old_value, new = v\<rparr> s')))"

text \<open>
  The setter calls of a caller, each with a string, and a sequence of them; an exception
  ends the sequence.
\<close>

datatype setter = Set_function string | Set_type string | Set_path string

fun apply_setter :: "setter \<Rightarrow> model_selection \<Rightarrow> error + model_selection" where
  "apply_setter (Set_function f) s = set_model_function (Str f) s"
| "apply_setter (Set_type t) s = set_model_type (Str t) s"
| "apply_setter (Set_path p) s = set_model_path (Str p) s"

fun run_setters :: "setter list \<Rightarrow> model_selection \<Rightarrow> error + model_selection" where
  "run_setters [] s = Inr s"
| "run_setters (c # cs) s =
     (case apply_setter c s of
        Inl e \<Rightarrow> Inl e
      | Inr s' \<Rightarrow> run_setters cs s')"

section \<open>The earlier version kept in the notebook checkpoint\<close>

text \<open>
  A numpy array of strings: an item, or a sequence of arrays along the first axis.
\<close>

datatype ndarray = Item string | Arr "ndarray list"

text \<open>The array of a list of rows.\<close>

definition array2d :: "string list list \<Rightarrow> ndarray" where
  "array2d rows = Arr (map (\<lambda>row. Arr (map Item row)) rows)"

text \<open>\<^verbatim>\<open>np.squeeze\<close>: every axis of length one is removed.\<close>

fun np_squeeze :: "ndarray \<Rightarrow> ndarray" where
  "np_squeeze (Item x) = Item x"
| "np_squeeze (Arr []) = Arr []"
| "np_squeeze (Arr [a]) = np_squeeze a"
| "np_squeeze (Arr (a # b # cs)) = Arr (map np_squeeze (a # b # cs))"

text \<open>\<^verbatim>\<open>a.tolist()\<close>: nested lists; an array without axes gives its item.\<close>

fun tolist :: "ndarray \<Rightarrow> pyobj" where
  "tolist (Item x) = Str x"
| "tolist (Arr xs) = Lst (map tolist xs)"

text \<open>Validation of a \<^verbatim>\<open>List\<close> trait: only a list is accepted.\<close>

fun List_validate :: "pyobj \<Rightarrow> error + pyobj list" where
  "List_validate (Lst vs) = Inr vs"
| "List_validate (Str v) = Inl TraitError"

text \<open>
  \<^verbatim>\<open>update_model_list\<close> of the checkpoint file, with
  \<^verbatim>\<open>self.model_path_list = np.squeeze(mpl).tolist()\<close>; the result is the value the
  method returns, the content of the trait after the assignment.
\<close>

definition update_model_list_checkpoint :: "model_selection \<Rightarrow> error + pyobj list" where
  "update_model_list_checkpoint s =
     (let mf = filter (\<lambda>r. col_model_function r = model_function s) (df s);
          mt = filter (\<lambda>r. col_model_type r = model_type s) mf;
          mpl = map (\<lambda>r. [col_model_path r]) mt
      in List_validate (tolist (np_squeeze (array2d mpl))))"

section \<open>What the specification says the derived lists are\<close>

text \<open>
  The type options for a function, in the words of the specification: the distinct
  \<^verbatim>\<open>model_type\<close> values among the rows whose \<^verbatim>\<open>model_function\<close> is the given one,
  in ascending order.
\<close>

definition type_options :: "catalog_row list \<Rightarrow> string \<Rightarrow> string list" where
  "type_options rows f =
     sorted_list_of_set (col_model_type ` {r \<in> set rows. col_model_function r = f})"

text \<open>A selector whose type options are those of its current function.\<close>

definition type_consistent :: "model_selection \<Rightarrow> bool" where
  "type_consistent s \<longleftrightarrow> model_type_list s = type_options (df s) (model_function s)"

section \<open>The catalog of the end-to-end scenario\<close>

definition scenario_tbl :: "catalog_row list" where
  "scenario_tbl =
     [\<lparr>col_model_function = ''object detection'', col_model_type = ''SSD'',
       col_model_path = ''repo/a/m1.trt''\<rparr>,
      \<lparr>col_model_function = ''object detection'', col_model_type = ''SSD'',
       col_model_path = ''repo/a/m2.trt''\<rparr>,
      \<lparr>col_model_function = ''object detection'', col_model_type = ''ResNet'',
       col_model_path = ''repo/b/m3.trt''\<rparr>,
      \<lparr>col_model_function = ''lane following'', col_model_type = ''CNN'',
       col_model_path = ''repo/c/m4.trt''\<rparr>]"

definition scenario_files :: files where
  "scenario_files = [(''/root/trt_model_tbl.csv'', scenario_tbl)]"

text \<open>The rows after construction with root \<^verbatim>\<open>/root\<close>, and the selector it returns.\<close>

definition scenario_rows :: "catalog_row list" where
  "scenario_rows =
     [\<lparr>col_model_function = ''object detection'', col_model_type = ''SSD'',
       col_model_path = ''/root/a/m1.trt''\<rparr>,
      \<lparr>col_model_function = ''object detection'', col_model_type = ''SSD'',
       col_model_path = ''/root/a/m2.trt''\<rparr>,
      \<lparr>col_model_function = ''object detection'', col_model_type = ''ResNet'',
       col_model_path = ''/root/b/m3.trt''\<rparr>,
      \<lparr>col_model_function = ''lane following'', col_model_type = ''CNN'',
       col_model_path = ''/root/c/m4.trt''\<rparr>]"

definition scenario_selector :: model_selection where
  "scenario_selector =
     \<lparr>core_library = ''TensorRT'', df = scenario_rows,
      model_function = ''object detection'',
      model_function_list = [''lane following'', ''object detection''],
      model_type = ''SSD'', model_type_list = [''ResNet'', ''SSD''],
      model_path = [], model_path_list = [''/root/a/m1.trt'', ''/root/a/m2.trt''],
      selected_model_path = [], is_selected = False\<rparr>"

section \<open>Further catalogs used as concrete inputs\<close>


text \<open>A table without rows.\<close>

definition empty_files :: files where
  "empty_files = [(''/root/trt_model_tbl.csv'', [])]"


text \<open>A table with two rows of the same function and type and different paths.\<close>

definition two_path_files :: files where
  "two_path_files =
     [(''/root/trt_model_tbl.csv'',
       [\<lparr>col_model_function = ''object detection'', col_model_type = ''SSD'',
         col_model_path = ''repo/a/m1.trt''\<rparr>,
        \<lparr>col_model_function = ''object detection'', col_model_type = ''SSD'',
         col_model_path = ''repo/a/m2.trt''\<rparr>])]"

text \<open>A selector whose function options are the distinct functions of its catalog.\<close>

definition function_list_consistent :: "model_selection \<Rightarrow> bool" where
  "function_list_consistent s \<longleftrightarrow>
     model_function_list s = cat_categories (map col_model_function (df s))"


section \<open>Splitting and rewriting paths\<close>


lemma str_find_first: "c \<notin> set a \<Longrightarrow> str_find c (a @ c # b) = Some (length a)"
  by (induction a) auto


lemma split1_first: "c \<notin> set a \<Longrightarrow> split1 c (a @ c # b) = [a, b]"
  by (simp add: split1_def str_find_first)


lemma rewrite_row_sep:
  "CHR ''/'' \<notin> set a \<Longrightarrow> col_model_path p = a @ CHR ''/'' # b \<Longrightarrow>
   rewrite_row root p = Inr (p\<lparr>col_model_path := os_path_join root b\<rparr>)"
  by (simp add: rewrite_row_def split1_first getitem_def)



lemma rewrite_row_error: "rewrite_row root p = Inl e \<Longrightarrow> e = IndexError"
  by (auto simp: rewrite_row_def getitem_def split: if_splits sum.splits)

lemma rewrite_row_keeps:
  "rewrite_row root p = Inr p' \<Longrightarrow>
   col_model_function p' = col_model_function p \<and> col_model_type p' = col_model_type p"
  by (auto simp: rewrite_row_def split: sum.splits)

lemma rewrite_paths_error: "rewrite_paths root ps = Inl e \<Longrightarrow> e = IndexError"
  by (induction ps arbitrary: e) (auto split: sum.splits dest: rewrite_row_error)






lemma rewrite_paths_types:
  "rewrite_paths root ps = Inr ps' \<Longrightarrow>
   map col_model_type (filter (\<lambda>r. col_model_function r = f) ps') =
   map col_model_type (filter (\<lambda>r. col_model_function r = f) ps)"
  by (induction ps arbitrary: ps') (auto split: sum.splits dest: rewrite_row_keeps)

lemma cat_categories_set:
  "cat_categories xs = sorted_list_of_set (set xs)"
  by (simp add: cat_categories_def sorted_list_of_set_sort_remdups)

lemma type_options_code:
  "type_options rows f =
   cat_categories (map col_model_type (filter (\<lambda>r. col_model_function r = f) rows))"
proof -
  have "col_model_type ` {r \<in> set rows. col_model_function r = f} =
        set (map col_model_type (filter (\<lambda>r. col_model_function r = f) rows))"
    by auto
  then show ?thesis
    by (simp only: type_options_def cat_categories_set)
qed

lemma update_model_type_list_eq:
  "update_model_type_list s = s\<lparr>model_type_list := type_options (df s) (model_function s)\<rparr>"
  by (simp add: update_model_type_list_def type_options_code)

lemma col0_values: "map (\<lambda>row. row ! 0) (map (\<lambda>r. [col_model_path r]) mt) = map col_model_path mt"
  by (induction mt) simp_all

lemma update_model_list_eq:
  "update_model_list s =
   s\<lparr>model_path_list := map col_model_path
       (filter (\<lambda>r. col_model_function r = model_function s \<and> col_model_type r = model_type s)
          (df s))\<rparr>"
proof -
  have "filter (\<lambda>r. col_model_type r = model_type s)
          (filter (\<lambda>r. col_model_function r = model_function s) (df s)) =
        filter (\<lambda>r. col_model_function r = model_function s \<and> col_model_type r = model_type s)
          (df s)"
    by (simp add: conj_commute)
  then show ?thesis
    by (simp add: update_model_list_def Let_def col0_values del: filter_filter)
qed

lemma set_model_function_eq:
  "set_model_function (Str f) s =
   Inr (if model_function s = f then s
        else s\<lparr>model_function := f, model_type_list := type_options (df s) f\<rparr>)"
  by (simp add: set_model_function_def update_model_def update_model_type_list_eq Let_def)

lemma set_model_type_eq:
  "set_model_type (Str t) s =
   Inr (if model_type s = t then s else update_model_list (s\<lparr>model_type := t\<rparr>))"
  by (simp add: set_model_type_def update_model_def Let_def)

lemma set_model_path_eq: "set_model_path (Str p) s = Inr (s\<lparr>model_path := p\<rparr>)"
  by (simp add: set_model_path_def update_model_def Let_def)

lemma apply_setter_total: "\<exists>s'. apply_setter c s = Inr s'"
  by (cases c) (simp_all add: set_model_function_eq set_model_type_eq set_model_path_eq)

lemma apply_setter_inv:
  "apply_setter c s = Inr s' \<Longrightarrow> type_consistent s \<Longrightarrow> type_consistent s' \<and> df s' = df s"
  by (cases c)
     (auto simp: set_model_function_eq set_model_type_eq set_model_path_eq
        update_model_list_eq type_consistent_def split: if_splits)

lemma run_setters_inv:
  "type_consistent s \<Longrightarrow> \<exists>s'. run_setters cs s = Inr s' \<and> type_consistent s' \<and> df s' = df s"
proof (induction cs arbitrary: s)
  case Nil
  then show ?case by simp
next
  case (Cons c cs)
  obtain s1 where s1: "apply_setter c s = Inr s1"
    using apply_setter_total by blast
  with Cons.prems have "type_consistent s1" and "df s1 = df s"
    using apply_setter_inv by blast+
  with Cons.IH [of s1] s1 show ?case by auto
qed

lemma run_setters_append:
  "run_setters cs s = Inr s1 \<Longrightarrow> run_setters (cs @ ds) s = run_setters ds s1"
  by (induction cs arbitrary: s) (auto split: sum.splits)

lemma init_loaded:
  "load_df lib root fs = Inr (Some tbl) \<Longrightarrow> rewrite_paths root tbl = Inr rows \<Longrightarrow>
   init lib root fs = Inr
     \<lparr>core_library = lib, df = rows,
      model_function = ''object detection'',
      model_function_list = cat_categories (map col_model_function rows),
      model_type = ''SSD'', model_type_list = type_options rows ''object detection'',
      model_path = [],
      model_path_list = map col_model_path
        (filter (\<lambda>r. col_model_function r = ''object detection'' \<and> col_model_type r = ''SSD'') rows),
      selected_model_path = [], is_selected = False\<rparr>"
  by (simp add: init_def update_model_list_eq update_model_type_list_eq)

lemma init_consistent:
  assumes "load_df lib root fs = Inr (Some tbl)" and "init lib root fs = Inr s"
  shows "type_consistent s" and "rewrite_paths root tbl = Inr (df s)"
proof -
  from assms obtain rows where r: "rewrite_paths root tbl = Inr rows"
    by (auto simp: init_def split: sum.splits)
  from init_loaded [OF assms(1) r] assms(2) show "type_consistent s"
    by (auto simp: type_consistent_def)
  from init_loaded [OF assms(1) r] assms(2) r show "rewrite_paths root tbl = Inr (df s)"
    by auto
qed

lemma type_options_rewritten:
  "rewrite_paths root tbl = Inr rows \<Longrightarrow> type_options rows f = type_options tbl f"
  by (simp add: type_options_code rewrite_paths_types)

section \<open>The scenario, evaluated\<close>

lemma scenario_load: "load_df ''TensorRT'' ''/root'' scenario_files = Inr (Some scenario_tbl)"
  by (simp add: load_df_def read_csv_def os_path_join_def endswith_def scenario_files_def)

lemma scenario_rewrite: "rewrite_paths ''/root'' scenario_tbl = Inr scenario_rows"
  by (simp add: scenario_tbl_def scenario_rows_def rewrite_row_def split1_def getitem_def
      os_path_join_def endswith_def)

lemma scenario_init: "init ''TensorRT'' ''/root'' scenario_files = Inr scenario_selector"
  unfolding scenario_files_def scenario_tbl_def scenario_selector_def scenario_rows_def
  by code_simp

section \<open>Cascade consistency\<close>

text \<open>
  Claim C1. For every catalog and every sequence of setter calls on the constructed
  selector, the type options are those of the current function: they are the distinct
  types among the catalog rows of that function, in ascending order. In particular this
  holds right after a sequence ending in an assignment of the function \<open>f\<close>, where the
  current function is \<open>f\<close>. An assignment of the value the trait already holds is not
  notified, and the list it leaves in place is already the right one.
\<close>

theorem cascade_consistency:
  assumes "load_df lib root fs = Inr (Some tbl)" and "init lib root fs = Inr s0"
  shows "(\<exists>s. run_setters calls s0 = Inr s \<and>
              model_type_list s = type_options tbl (model_function s)) \<and>
         (\<exists>s'. run_setters (calls @ [Set_function f]) s0 = Inr s' \<and>
               model_function s' = f \<and> model_type_list s' = type_options tbl f)"
proof -
  have c0: "type_consistent s0" and rw: "rewrite_paths root tbl = Inr (df s0)"
    using init_consistent [OF assms] by simp_all
  obtain s where s: "run_setters calls s0 = Inr s" "type_consistent s" "df s = df s0"
    using run_setters_inv [OF c0] by blast
  have same: "type_options (df s) g = type_options tbl g" for g
    using type_options_rewritten [OF rw] s(3) by simp
  have before: "model_type_list s = type_options tbl (model_function s)"
    using s(2) same by (simp add: type_consistent_def)
  have "run_setters (calls @ [Set_function f]) s0 = run_setters [Set_function f] s"
    using run_setters_append [OF s(1)] .
  also have "\<dots> = Inr (if model_function s = f then s
        else s\<lparr>model_function := f, model_type_list := type_options (df s) f\<rparr>)"
    by (simp add: set_model_function_eq)
  finally have after: "\<exists>s'. run_setters (calls @ [Set_function f]) s0 = Inr s' \<and>
      model_function s' = f \<and> model_type_list s' = type_options tbl f"
    using before same by (cases "model_function s = f") auto
  from s(1) before after show ?thesis by blast
qed

theorem cascade_consistency_witness:
  "load_df ''TensorRT'' ''/root'' scenario_files = Inr (Some scenario_tbl) \<and>
   init ''TensorRT'' ''/root'' scenario_files = Inr scenario_selector \<and>
   (\<exists>s'. run_setters ([Set_type ''CNN'', Set_function ''lane following''] @
            [Set_function ''lane following'']) scenario_selector = Inr s' \<and>
         model_function s' = ''lane following'' \<and>
         model_type_list s' = type_options scenario_tbl ''lane following'')"
  using cascade_consistency [OF scenario_load scenario_init,
      of "[Set_type ''CNN'', Set_function ''lane following'']" "''lane following''"]
    scenario_load scenario_init
  by blast

section \<open>The end-to-end scenario\<close>

text \<open>
  Claim C2. Whenever the table loaded for the tag under the root \<^verbatim>\<open>/root\<close> is the
  four-row catalog of the scenario, construction returns a selector with function options
  \<^verbatim>\<open>lane following\<close>, \<^verbatim>\<open>object detection\<close>, function \<^verbatim>\<open>object detection\<close>, type
  options \<^verbatim>\<open>ResNet\<close>, \<^verbatim>\<open>SSD\<close>, type \<^verbatim>\<open>SSD\<close> and path options
  \<^verbatim>\<open>/root/a/m1.trt\<close>, \<^verbatim>\<open>/root/a/m2.trt\<close>; assigning the function
  \<^verbatim>\<open>lane following\<close> then gives the type options \<^verbatim>\<open>CNN\<close>, and assigning the type
  \<^verbatim>\<open>CNN\<close> after that gives the path options \<^verbatim>\<open>/root/c/m4.trt\<close>. The option sets of
  the claim are the lists here, in ascending order.
\<close>

theorem scenario_end_to_end:
  assumes "load_df lib ''/root'' fs = Inr (Some scenario_tbl)"
  shows "\<exists>s0 s1 s2.
     init lib ''/root'' fs = Inr s0 \<and>
     model_function_list s0 = [''lane following'', ''object detection''] \<and>
     model_function s0 = ''object detection'' \<and>
     model_type_list s0 = [''ResNet'', ''SSD''] \<and>
     model_type s0 = ''SSD'' \<and>
     model_path_list s0 = [''/root/a/m1.trt'', ''/root/a/m2.trt''] \<and>
     set_model_function (Str ''lane following'') s0 = Inr s1 \<and>
     model_type_list s1 = [''CNN''] \<and>
     set_model_type (Str ''CNN'') s1 = Inr s2 \<and>
     model_path_list s2 = [''/root/c/m4.trt'']"
proof -
  let ?s0 = "scenario_selector\<lparr>core_library := lib\<rparr>"
  have cats: "cat_categories (map col_model_function scenario_rows) =
      [''lane following'', ''object detection'']"
    unfolding scenario_rows_def by code_simp
  have types0: "type_options scenario_rows ''object detection'' = [''ResNet'', ''SSD'']"
    unfolding type_options_code scenario_rows_def by code_simp
  have types1: "type_options scenario_rows ''lane following'' = [''CNN'']"
    unfolding type_options_code scenario_rows_def by code_simp
  have i: "init lib ''/root'' fs = Inr ?s0"
    by (simp add: init_loaded [OF assms scenario_rewrite] cats types0 scenario_selector_def)
       (simp add: scenario_rows_def)
  let ?s1 = "?s0\<lparr>model_function := ''lane following'', model_type_list := [''CNN'']\<rparr>"
  have f: "set_model_function (Str ''lane following'') ?s0 = Inr ?s1"
    by (simp add: set_model_function_eq scenario_selector_def types1)
  let ?s2 = "?s1\<lparr>model_type := ''CNN'', model_path_list := [''/root/c/m4.trt'']\<rparr>"
  have t: "set_model_type (Str ''CNN'') ?s1 = Inr ?s2"
    by (simp add: set_model_type_eq update_model_list_eq scenario_selector_def scenario_rows_def)
  from i f t show ?thesis
    by (intro exI [of _ ?s0] exI [of _ ?s1] exI [of _ ?s2]) (simp add: scenario_selector_def)
qed

theorem scenario_end_to_end_witness:
  "load_df ''TensorRT'' ''/root'' scenario_files = Inr (Some scenario_tbl) \<and>
   (\<exists>s0 s1 s2.
     init ''TensorRT'' ''/root'' scenario_files = Inr s0 \<and>
     model_function_list s0 = [''lane following'', ''object detection''] \<and>
     model_function s0 = ''object detection'' \<and>
     model_type_list s0 = [''ResNet'', ''SSD''] \<and>
     model_type s0 = ''SSD'' \<and>
     model_path_list s0 = [''/root/a/m1.trt'', ''/root/a/m2.trt''] \<and>
     set_model_function (Str ''lane following'') s0 = Inr s1 \<and>
     model_type_list s1 = [''CNN''] \<and>
     set_model_type (Str ''CNN'') s1 = Inr s2 \<and>
     model_path_list s2 = [''/root/c/m4.trt''])"
  using scenario_end_to_end [OF scenario_load] scenario_load by simp

section \<open>Path resolution at load\<close>




section \<open>A row whose path has no separator\<close>





section \<open>A catalog without rows\<close>

lemma load_df_error: "load_df lib root fs = Inl e \<Longrightarrow> e = FileNotFoundError"
  by (auto simp: load_df_def read_csv_def split: if_splits option.splits)

lemma init_error:
  "init lib root fs = Inl e \<Longrightarrow> e = FileNotFoundError \<or> e = AttributeError \<or> e = IndexError"
  by (auto simp: init_def split: sum.splits option.splits
      dest: load_df_error rewrite_paths_error)

text \<open>
  Claim C5, as amended. Construction over a table without rows returns a selector: the
  function, type and path keep their defaults \<^verbatim>\<open>object detection\<close>, \<^verbatim>\<open>SSD\<close> and
  the empty string, and the three option lists are empty. Construction raises
  \<open>NoMatchingModelError\<close> for no input at all.
\<close>

theorem empty_catalog_constructs:
  "(load_df lib root fs = Inr (Some []) \<longrightarrow>
      init lib root fs = Inr
        \<lparr>core_library = lib, df = [],
         model_function = ''object detection'', model_function_list = [],
         model_type = ''SSD'', model_type_list = [],
         model_path = [], model_path_list = [],
         selected_model_path = [], is_selected = False\<rparr>) \<and>
   init lib root fs \<noteq> Inl NoMatchingModelError"
proof (intro conjI impI)
  assume "load_df lib root fs = Inr (Some [])"
  then show "init lib root fs = Inr
        \<lparr>core_library = lib, df = [],
         model_function = ''object detection'', model_function_list = [],
         model_type = ''SSD'', model_type_list = [],
         model_path = [], model_path_list = [],
         selected_model_path = [], is_selected = False\<rparr>"
    by (simp add: init_def update_model_list_def update_model_type_list_def cat_categories_def)
next
  show "init lib root fs \<noteq> Inl NoMatchingModelError"
    using init_error [of lib root fs NoMatchingModelError] by auto
qed

lemma empty_load: "load_df ''TensorRT'' ''/root'' empty_files = Inr (Some [])"
  by (simp add: load_df_def read_csv_def os_path_join_def endswith_def empty_files_def)

theorem empty_catalog_constructs_witness:
  "load_df ''TensorRT'' ''/root'' empty_files = Inr (Some []) \<and>
   init ''TensorRT'' ''/root'' empty_files = Inr
        \<lparr>core_library = ''TensorRT'', df = [],
         model_function = ''object detection'', model_function_list = [],
         model_type = ''SSD'', model_type_list = [],
         model_path = [], model_path_list = [],
         selected_model_path = [], is_selected = False\<rparr>"
  using empty_catalog_constructs [of "''TensorRT''" "''/root''" empty_files] empty_load
  by simp

text \<open>
  The claim as stated fails: construction over the empty table does not raise
  \<open>NoMatchingModelError\<close>, it returns a selector.
\<close>

theorem empty_catalog_counterexample:
  "init ''TensorRT'' ''/root'' empty_files \<noteq> Inl NoMatchingModelError \<and>
   init ''TensorRT'' ''/root'' empty_files = Inr
        \<lparr>core_library = ''TensorRT'', df = [],
         model_function = ''object detection'', model_function_list = [],
         model_type = ''SSD'', model_type_list = [],
         model_path = [], model_path_list = [],
         selected_model_path = [], is_selected = False\<rparr>"
  by (simp add: init_def empty_load update_model_list_def update_model_type_list_def
      cat_categories_def)

section \<open>Path options\<close>

text \<open>
  Claim C6. Recomputing the path options changes only \<^verbatim>\<open>model_path_list\<close>, which
  becomes the paths of exactly the rows whose function is the current function and whose
  type is the current type, in catalog order, duplicates kept. Two rows of function
  \<^verbatim>\<open>object detection\<close> and type \<^verbatim>\<open>SSD\<close> give two path options, whatever their
  paths; and construction over a table of two such rows returns a selector with the two
  rewritten paths as its path options.
\<close>

theorem path_options_order_no_dedup:
  "update_model_list s =
     s\<lparr>model_path_list := map col_model_path
         (filter (\<lambda>r. col_model_function r = model_function s \<and> col_model_type r = model_type s)
            (df s))\<rparr> \<and>
   length (model_path_list (update_model_list
     (s\<lparr>df := [\<lparr>col_model_function = ''object detection'', col_model_type = ''SSD'',
                  col_model_path = p1\<rparr>,
                \<lparr>col_model_function = ''object detection'', col_model_type = ''SSD'',
                  col_model_path = p2\<rparr>],
        model_function := ''object detection'', model_type := ''SSD''\<rparr>))) = 2 \<and>
   (load_df lib root fs = Inr (Some
       [\<lparr>col_model_function = ''object detection'', col_model_type = ''SSD'',
          col_model_path = a1 @ CHR ''/'' # b1\<rparr>,
        \<lparr>col_model_function = ''object detection'', col_model_type = ''SSD'',
          col_model_path = a2 @ CHR ''/'' # b2\<rparr>]) \<and>
     CHR ''/'' \<notin> set a1 \<and> CHR ''/'' \<notin> set a2 \<longrightarrow>
     (\<exists>s0. init lib root fs = Inr s0 \<and>
        model_path_list s0 = [os_path_join root b1, os_path_join root b2]))"
proof (intro conjI impI)
  show "update_model_list s =
     s\<lparr>model_path_list := map col_model_path
         (filter (\<lambda>r. col_model_function r = model_function s \<and> col_model_type r = model_type s)
            (df s))\<rparr>"
    by (rule update_model_list_eq)
  show "length (model_path_list (update_model_list
     (s\<lparr>df := [\<lparr>col_model_function = ''object detection'', col_model_type = ''SSD'',
                  col_model_path = p1\<rparr>,
                \<lparr>col_model_function = ''object detection'', col_model_type = ''SSD'',
                  col_model_path = p2\<rparr>],
        model_function := ''object detection'', model_type := ''SSD''\<rparr>))) = 2"
    by (simp add: update_model_list_eq)
next
  let ?tbl = "[\<lparr>col_model_function = ''object detection'', col_model_type = ''SSD'',
          col_model_path = a1 @ CHR ''/'' # b1\<rparr>,
        \<lparr>col_model_function = ''object detection'', col_model_type = ''SSD'',
          col_model_path = a2 @ CHR ''/'' # b2\<rparr>]"
  assume h: "load_df lib root fs = Inr (Some ?tbl) \<and>
     CHR ''/'' \<notin> set a1 \<and> CHR ''/'' \<notin> set a2"
  then have rw: "rewrite_paths root ?tbl =
      Inr [\<lparr>col_model_function = ''object detection'', col_model_type = ''SSD'',
             col_model_path = os_path_join root b1\<rparr>,
           \<lparr>col_model_function = ''object detection'', col_model_type = ''SSD'',
             col_model_path = os_path_join root b2\<rparr>]"
    by (simp add: rewrite_row_sep [of a1 _ b1] rewrite_row_sep [of a2 _ b2])
  from h have ld: "load_df lib root fs = Inr (Some ?tbl)" by simp
  show "\<exists>s0. init lib root fs = Inr s0 \<and>
        model_path_list s0 = [os_path_join root b1, os_path_join root b2]"
    by (simp add: init_loaded [OF ld rw])
qed

lemma two_path_load:
  "load_df ''TensorRT'' ''/root'' two_path_files =
   Inr (Some [\<lparr>col_model_function = ''object detection'', col_model_type = ''SSD'',
         col_model_path = ''repo'' @ CHR ''/'' # ''a/m1.trt''\<rparr>,
        \<lparr>col_model_function = ''object detection'', col_model_type = ''SSD'',
         col_model_path = ''repo'' @ CHR ''/'' # ''a/m2.trt''\<rparr>])"
  by (simp add: load_df_def read_csv_def os_path_join_def endswith_def two_path_files_def)

theorem path_options_order_no_dedup_witness:
  "\<exists>s0. init ''TensorRT'' ''/root'' two_path_files = Inr s0 \<and>
      model_path_list s0 = [''/root/a/m1.trt'', ''/root/a/m2.trt''] \<and>
      length (model_path_list s0) = 2"
proof -
  have "CHR ''/'' \<notin> set ''repo''" by simp
  with two_path_load
    path_options_order_no_dedup [of _ _ _ "''TensorRT''" "''/root''" two_path_files
      "''repo''" "''a/m1.trt''" "''repo''" "''a/m2.trt''"]
  obtain s0 where "init ''TensorRT'' ''/root'' two_path_files = Inr s0"
    and "model_path_list s0 = [os_path_join ''/root'' ''a/m1.trt'', os_path_join ''/root'' ''a/m2.trt'']"
    by blast
  then show ?thesis
    by (simp add: os_path_join_def endswith_def)
qed

section \<open>Leaf independence\<close>

text \<open>
  Claim C7. For every selector and every string \<open>p\<close>, assigning \<open>p\<close> to
  \<^verbatim>\<open>model_path\<close> sets the path to \<open>p\<close> and changes nothing else: the function, the
  type, the three option lists and the catalog are as before.
\<close>

theorem leaf_independence:
  "set_model_path (Str p) s = Inr (s\<lparr>model_path := p\<rparr>) \<and>
   (\<exists>s'. set_model_path (Str p) s = Inr s' \<and> model_path s' = p \<and>
      model_function s' = model_function s \<and> model_type s' = model_type s \<and>
      model_function_list s' = model_function_list s \<and>
      model_type_list s' = model_type_list s \<and>
      model_path_list s' = model_path_list s \<and> df s' = df s)"
  by (simp add: set_model_path_eq)

section \<open>An unsupported library tag\<close>

text \<open>
  Claim C10. For every tag other than \<^verbatim>\<open>TensorRT\<close> and \<^verbatim>\<open>Pytorch\<close> no table is
  read, whatever the files are, and construction raises \<open>AttributeError\<close>, from the first
  read of the catalog attribute that was never assigned; it returns no selector, and the
  error is neither a catalog-load error nor a missing file.
\<close>

theorem unsupported_core_library:
  assumes "lib \<noteq> ''TensorRT''" and "lib \<noteq> ''Pytorch''"
  shows "load_df lib root fs = Inr None \<and> init lib root fs = Inl AttributeError \<and>
         init lib root fs \<noteq> Inl CatalogLoadError \<and> init lib root fs \<noteq> Inl FileNotFoundError"
  using assms by (simp add: load_df_def init_def)

theorem unsupported_core_library_witness:
  "''TensorFlow'' \<noteq> ''TensorRT'' \<and> ''TensorFlow'' \<noteq> ''Pytorch'' \<and>
   load_df ''TensorFlow'' ''/root'' scenario_files = Inr None \<and>
   init ''TensorFlow'' ''/root'' scenario_files = Inl AttributeError"
  using unsupported_core_library [of "''TensorFlow''" "''/root''" scenario_files]
  by simp

section \<open>Permissive setters\<close>

lemma init_function_list:
  "init lib root fs = Inr s \<Longrightarrow> type_consistent s \<and> function_list_consistent s"
  by (auto simp: init_def update_model_list_eq update_model_type_list_eq type_consistent_def
      function_list_consistent_def split: sum.splits option.splits)

lemma apply_setter_function_list:
  "apply_setter c s = Inr s' \<Longrightarrow> function_list_consistent s \<Longrightarrow> function_list_consistent s'"
  by (cases c)
     (auto simp: set_model_function_eq set_model_type_eq set_model_path_eq
        update_model_list_eq function_list_consistent_def split: if_splits)

lemma run_setters_function_list:
  "run_setters cs s = Inr s' \<Longrightarrow> function_list_consistent s \<Longrightarrow> function_list_consistent s'"
  by (induction cs arbitrary: s) (auto split: sum.splits dest: apply_setter_function_list)

lemma run_setters_type_consistent:
  "run_setters cs s = Inr s' \<Longrightarrow> type_consistent s \<Longrightarrow> type_consistent s'"
  using run_setters_inv [of s cs] by auto

lemma type_options_empty:
  "f \<notin> set (cat_categories (map col_model_function rows)) \<Longrightarrow> type_options rows f = []"
proof -
  assume "f \<notin> set (cat_categories (map col_model_function rows))"
  then have "f \<notin> col_model_function ` set rows"
    by (simp add: cat_categories_def)
  then have "filter (\<lambda>r. col_model_function r = f) rows = []"
    by (auto simp: filter_empty_conv)
  then show ?thesis
    by (simp add: type_options_code cat_categories_def)
qed

text \<open>
  Claim C8. On the constructed selector, after any sequence of setter calls, assigning any
  string \<open>f\<close> to \<^verbatim>\<open>model_function\<close> raises nothing: the result is the selector with
  the function \<open>f\<close> and with the type options recomputed for \<open>f\<close>, everything else as
  before. When \<open>f\<close> is not among the function options these type options are empty, and
  that selector is the result all the same. On any selector at all, the assignment of a
  string returns a selector whose function is that string.
\<close>

theorem permissive_set_function:
  assumes "init lib root fs = Inr s0" and "run_setters calls s0 = Inr t"
  shows "set_model_function (Str f) t =
           Inr (t\<lparr>model_function := f, model_type_list := type_options (df t) f\<rparr>) \<and>
         (f \<notin> set (model_function_list t) \<longrightarrow> type_options (df t) f = []) \<and>
         (\<exists>u'. set_model_function (Str f) u = Inr u' \<and> model_function u' = f)"
proof (intro conjI impI)
  have c: "type_consistent t" and fl: "function_list_consistent t"
    using init_function_list [OF assms(1)] run_setters_type_consistent [OF assms(2)]
      run_setters_function_list [OF assms(2)] by simp_all
  show "set_model_function (Str f) t =
           Inr (t\<lparr>model_function := f, model_type_list := type_options (df t) f\<rparr>)"
  proof (cases "model_function t = f")
    case True
    with c have "t\<lparr>model_function := f, model_type_list := type_options (df t) f\<rparr> = t"
      by (simp add: type_consistent_def)
    with True show ?thesis by (simp add: set_model_function_eq)
  next
    case False
    then show ?thesis by (simp add: set_model_function_eq)
  qed
  show "type_options (df t) f = []" if "f \<notin> set (model_function_list t)"
    using that fl type_options_empty by (simp add: function_list_consistent_def)
  show "\<exists>u'. set_model_function (Str f) u = Inr u' \<and> model_function u' = f"
    by (simp add: set_model_function_eq)
qed

theorem permissive_set_function_witness:
  "init ''TensorRT'' ''/root'' scenario_files = Inr scenario_selector \<and>
   run_setters [Set_type ''ResNet''] scenario_selector =
     Inr (scenario_selector\<lparr>model_type := ''ResNet'', model_path_list := [''/root/b/m3.trt'']\<rparr>) \<and>
   ''pose estimation'' \<notin> set [''lane following'', ''object detection''] \<and>
   set_model_function (Str ''pose estimation'')
     (scenario_selector\<lparr>model_type := ''ResNet'', model_path_list := [''/root/b/m3.trt'']\<rparr>) =
     Inr (scenario_selector\<lparr>model_function := ''pose estimation'', model_type := ''ResNet'',
            model_type_list := [], model_path_list := [''/root/b/m3.trt'']\<rparr>)"
proof -
  let ?t = "scenario_selector\<lparr>model_type := ''ResNet'', model_path_list := [''/root/b/m3.trt'']\<rparr>"
  have r: "run_setters [Set_type ''ResNet''] scenario_selector = Inr ?t"
    by (simp add: set_model_type_eq update_model_list_eq scenario_selector_def scenario_rows_def)
  have n: "''pose estimation'' \<notin> set (model_function_list ?t)"
    by (simp add: scenario_selector_def)
  from permissive_set_function [OF scenario_init r, of "''pose estimation''"] n
  have "set_model_function (Str ''pose estimation'') ?t =
      Inr (?t\<lparr>model_function := ''pose estimation'', model_type_list := []\<rparr>)"
    by simp
  with r scenario_init show ?thesis
    by (simp add: scenario_selector_def)
qed

section \<open>The two versions of the path option list\<close>

text \<open>
  When the filter matches no row, or two or more, the checkpoint version computes the
  list of the current version; when it matches exactly one, \<^verbatim>\<open>np.squeeze\<close> removes
  both axes, \<^verbatim>\<open>tolist\<close> gives a bare string, and the \<^verbatim>\<open>List\<close> trait rejects it.
\<close>

lemma squeeze_tolist_column:
  "length xs \<noteq> 1 \<Longrightarrow>
   tolist (np_squeeze (array2d (map (\<lambda>r. [g r]) xs))) = Lst (map (\<lambda>r. Str (g r)) xs)"
proof (cases xs)
  case Nil
  then show ?thesis by (simp add: array2d_def)
next
  case (Cons a as)
  assume "length xs \<noteq> 1"
  with Cons obtain b bs where "as = b # bs" by (cases as) auto
  with Cons show ?thesis by (simp add: array2d_def comp_def)
qed

lemma checkpoint_agrees:
  assumes "length (filter (\<lambda>r. col_model_function r = model_function s \<and>
      col_model_type r = model_type s) (df s)) \<noteq> 1"
  shows "update_model_list_checkpoint s = Inr (map Str (model_path_list (update_model_list s)))"
proof -
  let ?mt = "filter (\<lambda>r. col_model_type r = model_type s)
      (filter (\<lambda>r. col_model_function r = model_function s) (df s))"
  have eq: "?mt = filter (\<lambda>r. col_model_function r = model_function s \<and>
      col_model_type r = model_type s) (df s)"
    by (simp add: conj_commute)
  with assms have "length ?mt \<noteq> 1" by (simp del: filter_filter)
  then have "tolist (np_squeeze (array2d (map (\<lambda>r. [col_model_path r]) ?mt))) =
      Lst (map (\<lambda>r. Str (col_model_path r)) ?mt)"
    by (rule squeeze_tolist_column)
  then have "update_model_list_checkpoint s = Inr (map (\<lambda>r. Str (col_model_path r)) ?mt)"
    unfolding update_model_list_checkpoint_def Let_def by simp
  then show ?thesis
    by (simp add: update_model_list_eq eq comp_def del: filter_filter)
qed



end
